theory Spec2Isabelle
  imports Main "HOL-Library.AList"
begin

section \<open>Strings\<close>

text \<open>
  A JavaScript string is a sequence of UTF-16 code units.  Names, identities and room
  identifiers are kept as lists of code units, so that \<open>String.prototype.trim\<close> can be
  written with the whole ECMAScript white-space table.  Fixed user-interface texts and
  exception messages are only stored and compared; they stay HOL strings.
\<close>

type_synonym jsstring = "nat list"

definition lit :: "string \<Rightarrow> jsstring" where
  "lit cs = map of_char cs"

text \<open>
  ECMAScript \<open>WhiteSpace\<close> and \<open>LineTerminator\<close>: TAB, LF, VT, FF, CR, SP, NBSP,
  U+1680, U+2000 to U+200A, U+2028, U+2029, U+202F, U+205F, U+3000, U+FEFF.
\<close>

definition is_ws :: "nat \<Rightarrow> bool" where
  "is_ws c = (c \<in> set [9, 10, 11, 12, 13, 32, 160, 5760, 8232, 8233, 8239, 8287, 12288, 65279]
              \<or> (8192 \<le> c \<and> c \<le> 8202))"

definition trim :: "jsstring \<Rightarrow> jsstring" where
  "trim s = rev (dropWhile is_ws (rev (dropWhile is_ws s)))"

section \<open>Outcomes of calls that leave the component\<close>

text \<open>
  An awaited call into the browser, the backend or the media SDK either throws (its
  promise rejects) with a message, or returns.  What it does is not decided by this
  code, so every function below takes the outcome as an argument.
\<close>

datatype 'a outcome = Throws string | Returns 'a

record request =
  meth :: string
  endpoint :: string
  body :: "(string \<times> jsstring) list"

section \<open>JoinMeetingPage.js\<close>

record participant_record =
  pname :: jsstring
  isReturning :: bool
  project :: "jsstring option"
  role :: "jsstring option"

record validation_result =
  valid :: bool
  message :: jsstring
  participant :: "participant_record option"

record meeting_info =
  mi_roomName :: "jsstring option"
  status :: jsstring
  agentActive :: bool

text \<open>
  The five \<open>useState\<close> cells of the component, and what the component does to the
  outside: the \<open>alert\<close> texts shown, the \<open>fetch\<close> requests issued, and the value
  assigned to \<open>window.location.href\<close> (\<open>None\<close> while no navigation was started).
\<close>

record join_state =
  name :: jsstring
  isValidating :: bool
  validationResult :: "validation_result option"
  meetingInfo :: "meeting_info option"
  isLoading :: bool
  alerts :: "string list"
  requests :: "request list"
  href :: "jsstring option"

definition fetchMeetingInfo :: "meeting_info outcome \<Rightarrow> join_state \<Rightarrow> join_state" where
  "fetchMeetingInfo out s =
     (let s1 = s\<lparr>requests := requests s @
                 [\<lparr>meth = ''GET'', endpoint = ''http://localhost:5000/api/meeting-info'', body = []\<rparr>]\<rparr>
      in case out of
           Returns data \<Rightarrow> s1\<lparr>meetingInfo := Some data, isLoading := False\<rparr>
         | Throws e \<Rightarrow> s1\<lparr>isLoading := False\<rparr>)"

definition validate_request :: "jsstring \<Rightarrow> request" where
  "validate_request n =
     \<lparr>meth = ''POST'', endpoint = ''http://localhost:5000/api/validate-participant'',
      body = [(''name'', trim n)]\<rparr>"

text \<open>
  \<open>validateParticipant\<close>: the guard \<open>!name.trim()\<close> holds exactly when the trimmed
  name is the empty string.  The outcome is that of \<open>fetch\<close> followed by
  \<open>response.json()\<close>, the parsed body being in the shape the backend gives it; the
  \<open>finally\<close> block runs on both paths.
\<close>

definition validateParticipant :: "validation_result outcome \<Rightarrow> join_state \<Rightarrow> join_state" where
  "validateParticipant out s =
     (if trim (name s) = [] then s\<lparr>alerts := alerts s @ [''Please enter your name'']\<rparr>
      else
        let s1 = s\<lparr>isValidating := True\<rparr>;
            s2 = s1\<lparr>requests := requests s1 @ [validate_request (name s)]\<rparr>;
            s3 = (case out of
                    Returns result \<Rightarrow> s2\<lparr>validationResult := Some result\<rparr>
                  | Throws e \<Rightarrow>
                      s2\<lparr>alerts := alerts s2 @ [''Failed to validate participant. Please try again.'']\<rparr>)
        in s3\<lparr>isValidating := False\<rparr>)"

text \<open>\<open>validationResult?.valid\<close>: false on \<open>null\<close>, else the flag.\<close>

definition has_valid :: "join_state \<Rightarrow> bool" where
  "has_valid s = (case validationResult s of None \<Rightarrow> False | Some r \<Rightarrow> valid r)"

text \<open>\<open>meetingInfo?.roomName || 'daily-standup-room'\<close>: the default replaces a missing
  MeetingInfo, a missing field and the empty string.\<close>

definition room_or_default :: "meeting_info option \<Rightarrow> jsstring" where
  "room_or_default mi =
     (case mi of
        None \<Rightarrow> lit ''daily-standup-room''
      | Some i \<Rightarrow>
          (case mi_roomName i of
             None \<Rightarrow> lit ''daily-standup-room''
           | Some r \<Rightarrow> if r = [] then lit ''daily-standup-room'' else r))"

datatype js_error = TypeError | URIError

text \<open>
  \<open>joinMeeting\<close>.  \<open>encodeURIComponent\<close> is the browser's; it is an argument, with
  \<open>None\<close> for the \<open>URIError\<close> it raises on a lone surrogate.  Reading
  \<open>validationResult.participant.name\<close> raises a \<open>TypeError\<close> when the result carries
  no participant record.  The first branch ends in the source's \<open>return\<close>.
\<close>

definition joinMeeting ::
  "(jsstring \<Rightarrow> jsstring option) \<Rightarrow> validation_result outcome \<Rightarrow> join_state \<Rightarrow> js_error + join_state"
where
  "joinMeeting encodeURIComponent out s =
     (if \<not> has_valid s then Inr (validateParticipant out s)
      else
        case validationResult s of
          None \<Rightarrow> Inl TypeError
        | Some r \<Rightarrow>
            (case participant r of
               None \<Rightarrow> Inl TypeError
             | Some p \<Rightarrow>
                 (case encodeURIComponent (pname p) of
                    None \<Rightarrow> Inl URIError
                  | Some e \<Rightarrow>
                      Inr (s\<lparr>href := Some (lit ''/meeting?name='' @ e @ lit ''&room=''
                                              @ room_or_default (meetingInfo s))\<rparr>))))"

text \<open>The \<open>disabled\<close> attribute of the join button.\<close>

definition join_disabled :: "join_state \<Rightarrow> bool" where
  "join_disabled s =
     (isValidating s \<or> trim (name s) = []
      \<or> (case meetingInfo s of None \<Rightarrow> True | Some i \<Rightarrow> status i \<noteq> lit ''active''))"

section \<open>MeetingRoom.js\<close>

text \<open>
  Objects of the media SDK and of the document are known by a number, drawn from the
  counter \<open>next_obj\<close> when this code creates them (\<open>new Room\<close>,
  \<open>document.createElement\<close>).  A remote participant has the identity the SDK reports
  and a session number: two participant objects may carry one identity.
\<close>

record remote_participant =
  identity :: jsstring
  sid :: nat

datatype track_kind = Video | Audio | Unknown

record track =
  tid :: nat
  kind :: track_kind

record room =
  room_id :: nat
  adaptiveStream :: bool
  dynacast :: bool

datatype sdk_call =
    Connect room jsstring jsstring
  | Disconnect room
  | EnableCameraAndMicrophone room
  | SetMicrophoneEnabled room bool
  | SetCameraEnabled room bool
  | Attach nat nat
  | Detach nat

text \<open>
  The \<open>useState\<close> cells and the three \<open>useRef\<close> cells of the component, the two
  values read from the URL, and the outside: the \<open>fetch\<close> requests issued, the calls
  made into the SDK, the video elements this code has appended to a participant's
  container (container identity, element), the \<open>audio\<close> elements that
  \<open>document.querySelectorAll('audio')\<close> finds (element, its \<open>muted\<close> property), and
  the value assigned to \<open>window.location.href\<close>.  \<open>remoteVideosRef\<close> is the object
  used as a dictionary from identity to video element; identities are taken not to
  collide with the members every object inherits.
\<close>

record room_state =
  participantName :: jsstring
  roomName :: jsstring
  isConnected :: bool
  isConnecting :: bool
  participants :: "remote_participant list"
  localParticipant :: "room option"
  isAudioEnabled :: bool
  isVideoEnabled :: bool
  isSpeakerEnabled :: bool
  error :: "string option"
  connectionStatus :: string
  roomRef :: "room option"
  localVideoRef :: "nat option"
  remoteVideosRef :: "(jsstring \<times> nat) list"
  fetches :: "request list"
  sdk_calls :: "sdk_call list"
  next_obj :: nat
  dom_videos :: "(jsstring \<times> nat) list"
  dom_audio :: "(nat \<times> bool) list"
  room_href :: "jsstring option"

text \<open>\<open>urlParams.get('name') || ''\<close> and \<open>urlParams.get('room') || 'daily-standup-room'\<close>.\<close>

definition participantName_of :: "jsstring option \<Rightarrow> jsstring" where
  "participantName_of p = (case p of None \<Rightarrow> [] | Some n \<Rightarrow> n)"

definition roomName_of :: "jsstring option \<Rightarrow> jsstring" where
  "roomName_of p =
     (case p of
        None \<Rightarrow> lit ''daily-standup-room''
      | Some r \<Rightarrow> if r = [] then lit ''daily-standup-room'' else r)"

definition room_init :: "jsstring option \<Rightarrow> jsstring option \<Rightarrow> room_state" where
  "room_init name_param room_param =
     \<lparr>participantName = participantName_of name_param, roomName = roomName_of room_param,
      isConnected = False, isConnecting = False, participants = [], localParticipant = None,
      isAudioEnabled = True, isVideoEnabled = True, isSpeakerEnabled = True, error = None,
      connectionStatus = ''Initializing...'', roomRef = None, localVideoRef = None,
      remoteVideosRef = [], fetches = [], sdk_calls = [], next_obj = 0, dom_videos = [],
      dom_audio = [], room_href = None\<rparr>"

text \<open>The component renders the error view when \<open>error\<close> is truthy: set, and not the
  empty string.\<close>

definition shows_error :: "room_state \<Rightarrow> bool" where
  "shows_error s = (case error s of None \<Rightarrow> False | Some m \<Rightarrow> m \<noteq> [])"

subsection \<open>connectToRoom\<close>

record token_data =
  url :: jsstring
  token :: jsstring

datatype token_response = NotOk | Ok "token_data outcome"

text \<open>
  What the outside answers during one run of \<open>connectToRoom\<close>: the token \<open>fetch\<close>
  (rejected, or a response that is not \<open>ok\<close>, or one that is, with the outcome of
  \<open>json()\<close>), the dynamic import of the SDK, \<open>room.connect\<close>,
  \<open>enableCameraAndMicrophone\<close>, and the local participant's video publications, each
  with its track if it has one.
\<close>

record connect_env =
  token_fetch :: "token_response outcome"
  sdk_import :: "unit outcome"
  room_connect :: "unit outcome"
  enable_media :: "unit outcome"
  videoTracks :: "track option list"

definition token_request :: "jsstring \<Rightarrow> jsstring \<Rightarrow> request" where
  "token_request n r =
     \<lparr>meth = ''POST'', endpoint = ''http://localhost:5000/api/generate-token'',
      body = [(''name'', trim n), (''roomName'', r)]\<rparr>"

text \<open>The \<open>catch\<close> block.\<close>

definition connection_failed :: "string \<Rightarrow> room_state \<Rightarrow> room_state" where
  "connection_failed m s =
     s\<lparr>error := Some m, isConnecting := False, connectionStatus := ''Connection failed''\<rparr>"

definition attach_local :: "connect_env \<Rightarrow> room_state \<Rightarrow> room_state" where
  "attach_local env s =
     (case localVideoRef s of
        None \<Rightarrow> s
      | Some el \<Rightarrow>
          (case videoTracks env of
             [] \<Rightarrow> s
           | pub # _ \<Rightarrow>
               (case pub of
                  None \<Rightarrow> s
                | Some t \<Rightarrow> s\<lparr>sdk_calls := sdk_calls s @ [Attach (tid t) el]\<rparr>)))"

text \<open>
  The body of the \<open>try\<close>, statement by statement; every \<open>throw\<close> and every rejected
  \<open>await\<close> leaves through \<open>connection_failed\<close>.  The events the SDK emits on the
  room are delivered by \<open>handle\<close> below.
\<close>

definition connectToRoom :: "connect_env \<Rightarrow> room_state \<Rightarrow> room_state" where
  "connectToRoom env s =
     (let s1 = s\<lparr>isConnecting := True, connectionStatus := ''Getting access token...''\<rparr>
      in if participantName s1 = [] \<or> trim (participantName s1) = []
         then connection_failed ''Participant name is required'' s1
         else
           let s2 = s1\<lparr>fetches := fetches s1 @ [token_request (participantName s1) (roomName s1)]\<rparr>
           in case token_fetch env of
                Throws m \<Rightarrow> connection_failed m s2
              | Returns NotOk \<Rightarrow> connection_failed ''Failed to get access token'' s2
              | Returns (Ok (Throws m)) \<Rightarrow> connection_failed m s2
              | Returns (Ok (Returns tokenData)) \<Rightarrow>
                  let s3 = s2\<lparr>connectionStatus := ''Connecting to meeting room...''\<rparr>
                  in case sdk_import env of
                       Throws m \<Rightarrow> connection_failed m s3
                     | Returns _ \<Rightarrow>
                         let r = \<lparr>room_id = next_obj s3, adaptiveStream = True, dynacast = True\<rparr>;
                             s4 = s3\<lparr>next_obj := Suc (next_obj s3), roomRef := Some r\<rparr>;
                             s5 = s4\<lparr>sdk_calls := sdk_calls s4
                                        @ [Connect r (url tokenData) (token tokenData)]\<rparr>
                         in case room_connect env of
                              Throws m \<Rightarrow> connection_failed m s5
                            | Returns _ \<Rightarrow>
                                let s6 = s5\<lparr>sdk_calls := sdk_calls s5
                                           @ [EnableCameraAndMicrophone r]\<rparr>
                                in case enable_media env of
                                     Throws m \<Rightarrow> connection_failed m s6
                                   | Returns _ \<Rightarrow> attach_local env s6)"

text \<open>The body of the mount effect.\<close>

definition mount_effect :: "connect_env \<Rightarrow> room_state \<Rightarrow> room_state" where
  "mount_effect env s =
     (if participantName s = [] \<or> trim (participantName s) = []
      then s\<lparr>error := Some ''Participant name is required''\<rparr>
      else connectToRoom env s)"

subsection \<open>Event handlers\<close>

definition on_Connected :: "room \<Rightarrow> room_state \<Rightarrow> room_state" where
  "on_Connected r s =
     s\<lparr>isConnected := True, isConnecting := False, connectionStatus := ''Connected'',
       localParticipant := Some r\<rparr>"

definition on_Disconnected :: "room_state \<Rightarrow> room_state" where
  "on_Disconnected s = s\<lparr>isConnected := False, connectionStatus := ''Disconnected''\<rparr>"

definition on_ParticipantConnected :: "remote_participant \<Rightarrow> room_state \<Rightarrow> room_state" where
  "on_ParticipantConnected p s = s\<lparr>participants := participants s @ [p]\<rparr>"

definition on_ParticipantDisconnected :: "remote_participant \<Rightarrow> room_state \<Rightarrow> room_state" where
  "on_ParticipantDisconnected p s =
     s\<lparr>participants := filter (\<lambda>q. identity q \<noteq> identity p) (participants s)\<rparr>"

text \<open>
  \<open>TrackSubscribed\<close>.  Whether \<open>document.getElementById\<close> finds the participant's
  container depends on what is rendered when the event arrives; it comes with the
  event.  The \<open>audio\<close> element is created and given the track, and is not inserted
  into the document.
\<close>

definition on_TrackSubscribed ::
  "track \<Rightarrow> remote_participant \<Rightarrow> bool \<Rightarrow> room_state \<Rightarrow> room_state" where
  "on_TrackSubscribed t p container s =
     (if kind t = Video then
        let el = next_obj s;
            s1 = s\<lparr>next_obj := Suc el, sdk_calls := sdk_calls s @ [Attach (tid t) el]\<rparr>;
            s2 = s1\<lparr>remoteVideosRef := AList.update (identity p) el (remoteVideosRef s1)\<rparr>
        in if container then s2\<lparr>dom_videos := dom_videos s2 @ [(identity p, el)]\<rparr> else s2
      else if kind t = Audio then
        let el = next_obj s
        in s\<lparr>next_obj := Suc el, sdk_calls := sdk_calls s @ [Attach (tid t) el]\<rparr>
      else s)"

text \<open>\<open>TrackUnsubscribed\<close>: \<open>element.remove()\<close> takes the element out of the
  document; the kind of the track is not looked at.\<close>

definition on_TrackUnsubscribed :: "track \<Rightarrow> remote_participant \<Rightarrow> room_state \<Rightarrow> room_state" where
  "on_TrackUnsubscribed t p s =
     (let s1 = s\<lparr>sdk_calls := sdk_calls s @ [Detach (tid t)]\<rparr>
      in case map_of (remoteVideosRef s1) (identity p) of
           None \<Rightarrow> s1
         | Some el \<Rightarrow>
             s1\<lparr>dom_videos := filter (\<lambda>ce. snd ce \<noteq> el) (dom_videos s1),
                remoteVideosRef := AList.delete (identity p) (remoteVideosRef s1)\<rparr>)"

datatype room_event =
    Connected room
  | Disconnected
  | ParticipantConnected remote_participant
  | ParticipantDisconnected remote_participant
  | TrackSubscribed track remote_participant bool
  | TrackUnsubscribed track remote_participant

fun handle :: "room_event \<Rightarrow> room_state \<Rightarrow> room_state" where
  "handle (Connected r) s = on_Connected r s"
| "handle Disconnected s = on_Disconnected s"
| "handle (ParticipantConnected p) s = on_ParticipantConnected p s"
| "handle (ParticipantDisconnected p) s = on_ParticipantDisconnected p s"
| "handle (TrackSubscribed t p container) s = on_TrackSubscribed t p container s"
| "handle (TrackUnsubscribed t p) s = on_TrackUnsubscribed t p s"

text \<open>Events are handled one at a time, in the order of their arrival.\<close>

definition deliver :: "room_event list \<Rightarrow> room_state \<Rightarrow> room_state" where
  "deliver evs s = fold handle evs s"

subsection \<open>Teardown and controls\<close>

text \<open>
  \<open>room.disconnect()\<close> is asynchronous and is not awaited: the call returns a
  promise at once, so nothing is thrown into \<open>disconnectFromRoom\<close>.
\<close>

definition disconnectFromRoom :: "room_state \<Rightarrow> room_state" where
  "disconnectFromRoom s =
     (case roomRef s of
        None \<Rightarrow> s
      | Some r \<Rightarrow> s\<lparr>sdk_calls := sdk_calls s @ [Disconnect r], roomRef := None\<rparr>)"

definition toggleAudio :: "unit outcome \<Rightarrow> room_state \<Rightarrow> room_state" where
  "toggleAudio out s =
     (case roomRef s of
        None \<Rightarrow> s
      | Some r \<Rightarrow>
          let s1 = (if isAudioEnabled s
                    then s\<lparr>sdk_calls := sdk_calls s @ [SetMicrophoneEnabled r False]\<rparr>
                    else s\<lparr>sdk_calls := sdk_calls s @ [SetMicrophoneEnabled r True]\<rparr>)
          in case out of
               Throws e \<Rightarrow> s1
             | Returns _ \<Rightarrow> s1\<lparr>isAudioEnabled := \<not> isAudioEnabled s\<rparr>)"

definition toggleVideo :: "unit outcome \<Rightarrow> room_state \<Rightarrow> room_state" where
  "toggleVideo out s =
     (case roomRef s of
        None \<Rightarrow> s
      | Some r \<Rightarrow>
          let s1 = (if isVideoEnabled s
                    then s\<lparr>sdk_calls := sdk_calls s @ [SetCameraEnabled r False]\<rparr>
                    else s\<lparr>sdk_calls := sdk_calls s @ [SetCameraEnabled r True]\<rparr>)
          in case out of
               Throws e \<Rightarrow> s1
             | Returns _ \<Rightarrow> s1\<lparr>isVideoEnabled := \<not> isVideoEnabled s\<rparr>)"

definition toggleSpeaker :: "room_state \<Rightarrow> room_state" where
  "toggleSpeaker s =
     s\<lparr>isSpeakerEnabled := \<not> isSpeakerEnabled s,
       dom_audio := map (\<lambda>a. (fst a, isSpeakerEnabled s)) (dom_audio s)\<rparr>"

definition leaveRoom :: "room_state \<Rightarrow> room_state" where
  "leaveRoom s = (disconnectFromRoom s)\<lparr>room_href := Some (lit ''/'')\<rparr>"

section \<open>Sample inputs\<close>

text \<open>The initial values of the \<open>useState\<close> cells of the join page.\<close>

definition join_init :: join_state where
  "join_init = \<lparr>name = [], isValidating = False, validationResult = None, meetingInfo = None,
                 isLoading = True, alerts = [], requests = [], href = None\<rparr>"

definition dana_result :: validation_result where
  "dana_result =
     \<lparr>valid = True, message = lit ''Welcome'',
      participant = Some \<lparr>pname = lit ''Dana'', isReturning = False, project = None, role = None\<rparr>\<rparr>"

definition active_info :: meeting_info where
  "active_info = \<lparr>mi_roomName = Some (lit ''standup-7''), status = lit ''active'', agentActive = True\<rparr>"

definition inactive_info :: meeting_info where
  "inactive_info =
     \<lparr>mi_roomName = Some (lit ''standup-7''), status = lit ''inactive'', agentActive = False\<rparr>"

text \<open>The meeting is active, Dana has typed her name, nothing is validated yet.\<close>

definition dana_state :: join_state where
  "dana_state = join_init\<lparr>name := lit ''Dana'', isLoading := False, meetingInfo := Some active_info\<rparr>"

text \<open>Dana is validated, and no MeetingInfo was loaded.\<close>

definition validated_state :: join_state where
  "validated_state = dana_state\<lparr>validationResult := Some dana_result, meetingInfo := None\<rparr>"

text \<open>Dana is validated, and the meeting is reported inactive.\<close>

definition inactive_state :: join_state where
  "inactive_state = dana_state\<lparr>validationResult := Some dana_result, meetingInfo := Some inactive_info\<rparr>"

text \<open>Two participant objects with the identity \<open>sam\<close>.\<close>

definition sam :: remote_participant where
  "sam = \<lparr>identity = lit ''sam'', sid = 1\<rparr>"

definition sam_again :: remote_participant where
  "sam_again = \<lparr>identity = lit ''sam'', sid = 2\<rparr>"

definition the_room :: room where
  "the_room = \<lparr>room_id = 0, adaptiveStream = True, dynacast = True\<rparr>"

text \<open>The room view entered with \<open>?name=Dana\<close>, before and after the room object exists.\<close>

definition dana_room :: room_state where
  "dana_room = room_init (Some (lit ''Dana'')) None"

definition dana_connected :: room_state where
  "dana_connected = dana_room\<lparr>roomRef := Some the_room, next_obj := 1\<rparr>"

text \<open>The backend answers the token request with an error status.\<close>

definition token_refused :: connect_env where
  "token_refused =
     \<lparr>token_fetch = Returns NotOk, sdk_import = Returns (), room_connect = Returns (),
      enable_media = Returns (), videoTracks = []\<rparr>"

definition cam :: track where
  "cam = \<lparr>tid = 10, kind = Video\<rparr>"

definition mic :: track where
  "mic = \<lparr>tid = 11, kind = Audio\<rparr>"

text \<open>Sam has joined and his camera track has been given a video element.\<close>

definition sam_on_screen :: room_state where
  "sam_on_screen = deliver [ParticipantConnected sam, TrackSubscribed cam sam True] dana_connected"

text \<open>Two \<open>audio\<close> elements are in the document, one of them muted.\<close>

definition two_speakers :: room_state where
  "two_speakers = dana_connected\<lparr>dom_audio := [(5, False), (6, True)]\<rparr>"

section \<open>Facts about strings\<close>

lemma dropWhile_ws_empty: "(dropWhile is_ws s = []) = (\<forall>c\<in>set s. is_ws c)"
  by (induction s) auto

lemma trim_empty_iff: "(trim s = []) = (\<forall>c\<in>set s. is_ws c)"
proof
  assume t: "trim s = []"
  then have "dropWhile is_ws (rev (dropWhile is_ws s)) = []"
    by (simp add: trim_def)
  then have a: "\<forall>c\<in>set (dropWhile is_ws s). is_ws c"
    by (simp add: dropWhile_ws_empty)
  have "dropWhile is_ws s = []"
  proof (cases "dropWhile is_ws s")
    case Nil
    then show ?thesis .
  next
    case (Cons x xs)
    then have "\<not> is_ws x" by (metis hd_dropWhile list.sel(1) list.distinct(1))
    moreover have "is_ws x" using a Cons by simp
    ultimately show ?thesis by simp
  qed
  then show "\<forall>c\<in>set s. is_ws c" by (simp add: dropWhile_ws_empty)
next
  assume "\<forall>c\<in>set s. is_ws c"
  then have "dropWhile is_ws s = []" by (simp add: dropWhile_ws_empty)
  then have "rev (dropWhile is_ws (rev (dropWhile is_ws s))) = rev (dropWhile is_ws (rev []))"
    by (rule arg_cong)
  then show "trim s = []" unfolding trim_def by simp
qed

lemma lit_Nil_iff: "(lit cs = []) = (cs = [])"
  by (simp add: lit_def)

lemma lit_inactive: "lit ''inactive'' \<noteq> lit ''active''"
  by (simp add: lit_def)

lemma trim_dana: "trim (lit ''Dana'') = lit ''Dana''"
  by (simp add: trim_def lit_def is_ws_def)

section \<open>The participant collection\<close>

text \<open>Whatever the collection holds, a run of join events is appended to it as it is.\<close>

lemma participants_deliver_joins:
  "participants (deliver (map ParticipantConnected ps) s) = participants s @ ps"
  unfolding deliver_def
  by (induction ps arbitrary: s) (simp_all add: on_ParticipantConnected_def)

text \<open>
  C1.  The claim asks that inserting a remote participant be an upsert by identity, so
  that the collection holds at most one entry for each identity after any sequence of
  join events.  The \<open>ParticipantConnected\<close> handler appends without looking at the
  collection: after two join events for the identity \<open>sam\<close>, delivered to a session
  with no participants, the collection holds two entries with that identity.
\<close>

theorem repeated_join_appends:
  "map identity (participants
       (deliver [ParticipantConnected sam, ParticipantConnected sam_again] dana_connected))
     = [lit ''sam'', lit ''sam'']
   \<and> \<not> distinct (map identity (participants
         (deliver [ParticipantConnected sam, ParticipantConnected sam_again] dana_connected)))"
  by (simp add: deliver_def on_ParticipantConnected_def dana_connected_def dana_room_def
        room_init_def sam_def sam_again_def)

section \<open>The join page\<close>

text \<open>
  C2, as stated: invoked with no valid ValidationResult, \<open>joinMeeting\<close> validates
  and, the validation being valid, navigates in the same invocation.  It does not: with
  Dana's name typed, nothing validated and a validation that comes back valid, the
  invocation ends with the result stored and \<open>window.location.href\<close> not assigned.
\<close>

theorem joinMeeting_validates_without_navigating:
  "\<not> has_valid dana_state \<and> valid dana_result
   \<and> joinMeeting Some (Returns dana_result) dana_state
       = Inr (dana_state\<lparr>validationResult := Some dana_result,
                         requests := [validate_request (lit ''Dana'')]\<rparr>)
   \<and> href (dana_state\<lparr>validationResult := Some dana_result,
                       requests := [validate_request (lit ''Dana'')]\<rparr>) = None"
  by (simp add: joinMeeting_def has_valid_def validateParticipant_def dana_state_def join_init_def
        dana_result_def trim_dana lit_Nil_iff)

text \<open>
  C2, amended.  Invoked with no valid ValidationResult, \<open>joinMeeting\<close> runs
  \<open>validateParticipant\<close> and returns; that invocation does not navigate, whatever the
  validation yields.  Invoked with a valid ValidationResult that carries a participant
  record, it navigates to the room view with the validated participant name (encoded)
  and the meeting's room identifier, which is the default room identifier when there is
  no MeetingInfo or MeetingInfo has no room identifier.  In the sample runs \<open>Some\<close>
  stands for \<open>encodeURIComponent\<close>, which leaves the letters of \<open>Dana\<close> as they
  are.
\<close>

theorem joinMeeting_two_step:
  "(\<not> has_valid s \<longrightarrow>
      joinMeeting enc out s = Inr (validateParticipant out s)
      \<and> href (validateParticipant out s) = href s)
   \<and> (validationResult s = Some r \<and> valid r \<and> participant r = Some p \<and> enc (pname p) = Some e \<longrightarrow>
      joinMeeting enc out s =
        Inr (s\<lparr>href := Some (lit ''/meeting?name='' @ e @ lit ''&room=''
                               @ room_or_default (meetingInfo s))\<rparr>))
   \<and> room_or_default None = lit ''daily-standup-room''
   \<and> (mi_roomName i = None \<longrightarrow> room_or_default (Some i) = lit ''daily-standup-room'')
   \<and> (mi_roomName i = Some rn \<and> rn \<noteq> [] \<longrightarrow> room_or_default (Some i) = rn)"
  by (simp add: joinMeeting_def has_valid_def validateParticipant_def room_or_default_def Let_def
        split: outcome.splits)

theorem joinMeeting_two_step_witness:
  "\<not> has_valid dana_state
   \<and> href (validateParticipant (Returns dana_result) dana_state) = None
   \<and> joinMeeting Some (Returns dana_result) validated_state =
        Inr (validated_state\<lparr>href := Some (lit ''/meeting?name='' @ lit ''Dana'' @ lit ''&room=''
                                         @ lit ''daily-standup-room'')\<rparr>)
   \<and> joinMeeting Some (Returns dana_result) (validated_state\<lparr>meetingInfo := Some active_info\<rparr>) =
        Inr (validated_state\<lparr>meetingInfo := Some active_info,
               href := Some (lit ''/meeting?name='' @ lit ''Dana'' @ lit ''&room=''
                             @ lit ''standup-7'')\<rparr>)"
proof -
  let ?p = "\<lparr>pname = lit ''Dana'', isReturning = False, project = None, role = None\<rparr>"
  let ?n = "lit ''Dana''"
  let ?rn = "lit ''standup-7''"
  let ?out = "Returns dana_result"
  have a: "\<not> has_valid dana_state" "href dana_state = None"
    by (simp_all add: has_valid_def dana_state_def join_init_def)
  have b: "validationResult validated_state = Some dana_result \<and> valid dana_result
           \<and> participant dana_result = Some ?p \<and> Some (pname ?p) = Some ?n"
    by (simp add: validated_state_def dana_result_def)
  have c: "meetingInfo validated_state = None"
          "mi_roomName active_info = Some ?rn \<and> ?rn \<noteq> []"
    by (simp_all add: validated_state_def active_info_def lit_Nil_iff)
  from joinMeeting_two_step [of dana_state Some ?out dana_result ?p ?n active_info ?rn]
       joinMeeting_two_step [of validated_state Some ?out dana_result ?p ?n active_info ?rn]
       joinMeeting_two_step [of "validated_state\<lparr>meetingInfo := Some active_info\<rparr>" Some ?out
          dana_result ?p ?n active_info ?rn]
       a b c
  show ?thesis by simp
qed

text \<open>
  C3.  For every name that is empty or consists only of white space,
  \<open>validateParticipant\<close> issues no request and leaves the stored ValidationResult as it
  was; all it does is show the alert.
\<close>

theorem validateParticipant_blank_name:
  assumes "\<forall>c\<in>set (name s). is_ws c"
  shows "validateParticipant out s = s\<lparr>alerts := alerts s @ [''Please enter your name'']\<rparr>
         \<and> requests (validateParticipant out s) = requests s
         \<and> validationResult (validateParticipant out s) = validationResult s"
proof -
  from assms have "trim (name s) = []" by (simp add: trim_empty_iff)
  then show ?thesis by (simp add: validateParticipant_def)
qed

theorem validateParticipant_blank_name_witness:
  "name (validated_state\<lparr>name := [32, 9]\<rparr>) = [32, 9] \<and> is_ws 32 \<and> is_ws 9
   \<and> requests (validateParticipant (Throws ''offline'') (validated_state\<lparr>name := [32, 9]\<rparr>)) = []
   \<and> validationResult (validateParticipant (Throws ''offline'') (validated_state\<lparr>name := [32, 9]\<rparr>))
       = Some dana_result"
proof -
  have h: "\<forall>c\<in>set (name (validated_state\<lparr>name := [32, 9]\<rparr>)). is_ws c"
    by (simp add: is_ws_def)
  have r: "requests (validated_state\<lparr>name := [32, 9]\<rparr>) = []"
          "validationResult (validated_state\<lparr>name := [32, 9]\<rparr>) = Some dana_result"
    by (simp_all add: validated_state_def dana_state_def join_init_def)
  have w: "name (validated_state\<lparr>name := [32, 9]\<rparr>) = [32, 9] \<and> is_ws 32 \<and> is_ws 9"
    by (simp add: is_ws_def)
  from validateParticipant_blank_name [OF h, of "Throws ''offline''"] w r show ?thesis
    by simp
qed

text \<open>
  C8.  The join control is disabled exactly when validation is in flight, or the name is
  empty after trimming, or MeetingInfo does not report the meeting as active (it is not
  loaded, or its status is not \<open>active\<close>).  In particular, with the status
  \<open>inactive\<close> the control is disabled for every name and every validation state.
\<close>

theorem join_disabled_conditions:
  "join_disabled s =
     (isValidating s \<or> trim (name s) = []
      \<or> \<not> (\<exists>i. meetingInfo s = Some i \<and> status i = lit ''active''))
   \<and> (meetingInfo s = Some i \<and> status i = lit ''inactive'' \<longrightarrow> join_disabled s)"
  by (auto simp: join_disabled_def lit_inactive split: option.splits)

theorem join_disabled_conditions_witness:
  "meetingInfo inactive_state = Some inactive_info \<and> status inactive_info = lit ''inactive''
   \<and> \<not> isValidating inactive_state \<and> trim (name inactive_state) \<noteq> []
   \<and> has_valid inactive_state
   \<and> join_disabled inactive_state"
proof -
  have h: "meetingInfo inactive_state = Some inactive_info \<and> status inactive_info = lit ''inactive''"
    by (simp add: inactive_state_def inactive_info_def)
  have n: "\<not> isValidating inactive_state \<and> trim (name inactive_state) \<noteq> []
           \<and> has_valid inactive_state"
    by (simp add: inactive_state_def dana_state_def join_init_def trim_dana lit_Nil_iff
          has_valid_def dana_result_def)
  from join_disabled_conditions [of inactive_state inactive_info]
  have "meetingInfo inactive_state = Some inactive_info \<and> status inactive_info = lit ''inactive''
        \<longrightarrow> join_disabled inactive_state"
    by (rule conjunct2)
  with h have "join_disabled inactive_state" by (rule rev_mp)
  with h n show ?thesis by blast
qed

section \<open>The room view\<close>

text \<open>
  C7.  Entered with an empty or white-space-only participant name, the room view sets
  the error \<open>Participant name is required\<close>, which makes it render the error view, and
  does nothing else: no request is issued, the SDK is not called, no room is created.
\<close>

theorem mount_effect_blank_name:
  assumes "\<forall>c\<in>set (participantName s). is_ws c"
  shows "mount_effect env s = s\<lparr>error := Some ''Participant name is required''\<rparr>
         \<and> shows_error (mount_effect env s)
         \<and> fetches (mount_effect env s) = fetches s
         \<and> sdk_calls (mount_effect env s) = sdk_calls s
         \<and> roomRef (mount_effect env s) = roomRef s"
proof -
  from assms have "trim (participantName s) = []" by (simp add: trim_empty_iff)
  then show ?thesis by (simp add: mount_effect_def shows_error_def)
qed

theorem mount_effect_blank_name_witness:
  "participantName (room_init (Some [32, 32]) None) = [32, 32] \<and> is_ws 32
   \<and> participantName (room_init None None) = []
   \<and> shows_error (mount_effect token_refused (room_init (Some [32, 32]) None))
   \<and> fetches (mount_effect token_refused (room_init (Some [32, 32]) None)) = []
   \<and> shows_error (mount_effect token_refused (room_init None None))
   \<and> fetches (mount_effect token_refused (room_init None None)) = []"
proof -
  have h1: "\<forall>c\<in>set (participantName (room_init (Some [32, 32]) None)). is_ws c"
    by (simp add: room_init_def participantName_of_def is_ws_def)
  have h2: "\<forall>c\<in>set (participantName (room_init None None)). is_ws c"
    by (simp add: room_init_def participantName_of_def)
  have f: "fetches (room_init (Some [32, 32]) None) = []" "fetches (room_init None None) = []"
    by (simp_all add: room_init_def)
  have w: "participantName (room_init (Some [32, 32]) None) = [32, 32] \<and> is_ws 32"
          "participantName (room_init None None) = []"
    by (simp_all add: room_init_def participantName_of_def is_ws_def)
  from mount_effect_blank_name [OF h1, of token_refused]
       mount_effect_blank_name [OF h2, of token_refused] w f
  show ?thesis by (simp add: shows_error_def)
qed

text \<open>
  C6.  When the token request of \<open>connectToRoom\<close> is answered with a response that is
  not \<open>ok\<close>, the session ends in the failed state: the error is
  \<open>Failed to get access token\<close>, the error view is shown, the status is
  \<open>Connection failed\<close>.  No room object was created: the SDK was not called and
  \<open>roomRef\<close> is what it was, so it remains unset.
\<close>

theorem connectToRoom_token_not_ok:
  assumes "trim (participantName s) \<noteq> []" and "token_fetch env = Returns NotOk"
  shows "connectToRoom env s =
           s\<lparr>isConnecting := False, connectionStatus := ''Connection failed'',
             fetches := fetches s @ [token_request (participantName s) (roomName s)],
             error := Some ''Failed to get access token''\<rparr>
         \<and> error (connectToRoom env s) = Some ''Failed to get access token''
         \<and> shows_error (connectToRoom env s)
         \<and> roomRef (connectToRoom env s) = roomRef s
         \<and> sdk_calls (connectToRoom env s) = sdk_calls s"
proof -
  from assms(1) have ne: "participantName s \<noteq> []"
    by (auto simp: trim_def)
  show ?thesis
    using assms ne by (simp add: connectToRoom_def connection_failed_def shows_error_def Let_def)
qed

theorem connectToRoom_token_not_ok_witness:
  "trim (participantName dana_room) \<noteq> [] \<and> token_fetch token_refused = Returns NotOk
   \<and> roomRef dana_room = None
   \<and> error (connectToRoom token_refused dana_room) = Some ''Failed to get access token''
   \<and> shows_error (connectToRoom token_refused dana_room)
   \<and> roomRef (connectToRoom token_refused dana_room) = None"
proof -
  have h1: "trim (participantName dana_room) \<noteq> []"
    by (simp add: dana_room_def room_init_def participantName_of_def trim_dana lit_Nil_iff)
  have h2: "token_fetch token_refused = Returns NotOk"
    by (simp add: token_refused_def)
  have h3: "roomRef dana_room = None"
    by (simp add: dana_room_def room_init_def)
  from connectToRoom_token_not_ok [OF h1 h2] h1 h2 h3 show ?thesis
    by (simp add: shows_error_def)
qed

text \<open>
  C5.  \<open>disconnectFromRoom\<close> closes the session when there is one (it calls
  \<open>disconnect\<close> on the room and clears the reference) and does nothing when there is
  none.  Called twice in a row, in any state, the second call does nothing.
\<close>

theorem disconnectFromRoom_idempotent:
  "disconnectFromRoom (disconnectFromRoom s) = disconnectFromRoom s
   \<and> roomRef (disconnectFromRoom s) = None
   \<and> (roomRef s = None \<longrightarrow> disconnectFromRoom s = s)
   \<and> (roomRef s = Some r \<longrightarrow>
        disconnectFromRoom s = s\<lparr>sdk_calls := sdk_calls s @ [Disconnect r], roomRef := None\<rparr>)"
  by (simp add: disconnectFromRoom_def split: option.splits)

theorem disconnectFromRoom_idempotent_witness:
  "roomRef dana_connected = Some the_room \<and> roomRef dana_room = None
   \<and> sdk_calls (disconnectFromRoom (disconnectFromRoom dana_connected)) = [Disconnect the_room]
   \<and> disconnectFromRoom (disconnectFromRoom dana_room) = dana_room"
  using disconnectFromRoom_idempotent [of dana_connected the_room]
        disconnectFromRoom_idempotent [of dana_room the_room]
  by (simp add: disconnectFromRoom_def dana_connected_def dana_room_def room_init_def)

text \<open>
  C4.  If the call that enables or disables the microphone throws, \<open>toggleAudio\<close>
  leaves \<open>isAudioEnabled\<close> as it was, from either starting value.  The flag flips
  exactly when there is a room and the call returns.
\<close>

theorem toggleAudio_flips_only_on_success:
  "isAudioEnabled (toggleAudio (Throws e) s) = isAudioEnabled s
   \<and> (isAudioEnabled (toggleAudio out s) \<noteq> isAudioEnabled s)
       = (roomRef s \<noteq> None \<and> out = Returns ())"
  by (cases out) (auto simp: toggleAudio_def Let_def split: option.splits)

theorem toggleAudio_flips_only_on_success_witness:
  "isAudioEnabled (toggleAudio (Throws ''NotAllowedError'') dana_connected)
     = isAudioEnabled dana_connected
   \<and> isAudioEnabled dana_connected
   \<and> \<not> isAudioEnabled (toggleAudio (Returns ()) dana_connected)"
  using toggleAudio_flips_only_on_success [of "''NotAllowedError''" dana_connected "Returns ()"]
  by (simp add: dana_connected_def dana_room_def room_init_def)

text \<open>The sample state \<open>sam_on_screen\<close>, computed.\<close>

lemma sam_on_screen_eq:
  "sam_on_screen =
     dana_connected\<lparr>participants := [sam], next_obj := 2, sdk_calls := [Attach 10 1],
       remoteVideosRef := [(lit ''sam'', 1)], dom_videos := [(lit ''sam'', 1)]\<rparr>"
  by (simp add: sam_on_screen_def deliver_def on_ParticipantConnected_def on_TrackSubscribed_def
        dana_connected_def dana_room_def room_init_def cam_def sam_def Let_def)

text \<open>
  C9.  The \<open>TrackUnsubscribed\<close> handler removes the video element registered for the
  participant whatever the kind of the withdrawn track: if the participant has a
  registered video element, then after the event, for an audio track as for any other,
  the element is out of the document and the registry has no entry for the identity.
\<close>

theorem on_TrackUnsubscribed_removes_video:
  assumes "map_of (remoteVideosRef s) (identity p) = Some el"
  shows "map_of (remoteVideosRef (on_TrackUnsubscribed t p s)) (identity p) = None
         \<and> el \<notin> snd ` set (dom_videos (on_TrackUnsubscribed t p s))"
  using assms by (auto simp: on_TrackUnsubscribed_def Let_def delete_conv')

theorem on_TrackUnsubscribed_removes_video_witness:
  "map_of (remoteVideosRef sam_on_screen) (identity sam) = Some 1
   \<and> kind mic = Audio
   \<and> dom_videos sam_on_screen = [(lit ''sam'', 1)]
   \<and> map_of (remoteVideosRef (on_TrackUnsubscribed mic sam sam_on_screen)) (identity sam) = None
   \<and> 1 \<notin> snd ` set (dom_videos (on_TrackUnsubscribed mic sam sam_on_screen))"
proof -
  have h: "map_of (remoteVideosRef sam_on_screen) (identity sam) = Some 1"
    by (simp add: sam_on_screen_eq sam_def)
  have k: "kind mic = Audio" "dom_videos sam_on_screen = [(lit ''sam'', 1)]"
    by (simp_all add: mic_def sam_on_screen_eq)
  from on_TrackUnsubscribed_removes_video [OF h, of mic] h k show ?thesis
    by simp
qed

text \<open>
  C10.  \<open>toggleSpeaker\<close> flips \<open>isSpeakerEnabled\<close> and sets \<open>muted\<close>, on every
  \<open>audio\<close> element in the document, to the value the flag had before the toggle; so
  afterwards each of these elements is muted exactly when the speaker is disabled.  The
  elements themselves stay the same.
\<close>

theorem toggleSpeaker_mutes_all:
  "isSpeakerEnabled (toggleSpeaker s) = (\<not> isSpeakerEnabled s)
   \<and> map fst (dom_audio (toggleSpeaker s)) = map fst (dom_audio s)
   \<and> (\<forall>a\<in>set (dom_audio (toggleSpeaker s)). snd a = isSpeakerEnabled s)
   \<and> (\<forall>a\<in>set (dom_audio (toggleSpeaker s)). snd a = (\<not> isSpeakerEnabled (toggleSpeaker s)))"
  by (auto simp: toggleSpeaker_def)

theorem toggleSpeaker_mutes_all_witness:
  "dom_audio two_speakers = [(5, False), (6, True)] \<and> isSpeakerEnabled two_speakers
   \<and> \<not> isSpeakerEnabled (toggleSpeaker two_speakers)
   \<and> map fst (dom_audio (toggleSpeaker two_speakers)) = [5, 6]
   \<and> list_all snd (dom_audio (toggleSpeaker two_speakers))"
proof -
  have h: "dom_audio two_speakers = [(5, False), (6, True)]" "isSpeakerEnabled two_speakers"
    by (simp_all add: two_speakers_def dana_connected_def dana_room_def room_init_def)
  from toggleSpeaker_mutes_all [of two_speakers] h show ?thesis
    by (simp add: list_all_iff)
qed

end
